theory Spec2Isabelle
  imports Main
begin

section \<open>Python string primitives used by the routes\<close>

text \<open>
  Strings are character lists. The source works on Python \<open>str\<close>; every separator and
  pattern it uses is ASCII, so a character here stands for one code point of the source.
\<close>

text \<open>\<open>s.startswith(p)\<close>.\<close>

fun startswith :: "string \<Rightarrow> string \<Rightarrow> bool" where
  "startswith s [] = True"
| "startswith [] (p # ps) = False"
| "startswith (c # cs) (p # ps) = (c = p \<and> startswith cs ps)"

text \<open>\<open>sub in s\<close>: some suffix of \<open>s\<close> starts with \<open>sub\<close>.\<close>

fun py_in :: "string \<Rightarrow> string \<Rightarrow> bool" where
  "py_in sub [] = (sub = [])"
| "py_in sub (c # cs) = (startswith (c # cs) sub \<or> py_in sub cs)"

text \<open>
  \<open>s.split(sep)\<close> for a non-empty separator: scan from the left, cut at every occurrence,
  continue after the separator. \<open>acc\<close> holds the current piece reversed. The source only
  splits on the literals \<open>youtu.be/\<close>, \<open>v=\<close>, \<open>?\<close> and \<open>&\<close>; for the empty separator
  Python raises and this function returns the whole string as one piece.
\<close>

fun split_acc :: "string \<Rightarrow> string \<Rightarrow> string \<Rightarrow> string list" where
  "split_acc [] acc s = [rev acc @ s]"
| "split_acc (p # ps) acc [] = [rev acc]"
| "split_acc (p # ps) acc (c # cs) =
     (if startswith (c # cs) (p # ps)
      then rev acc # split_acc (p # ps) [] (drop (length ps) cs)
      else split_acc (p # ps) (c # acc) cs)"

definition split :: "string \<Rightarrow> string \<Rightarrow> string list" where
  "split s sep = split_acc sep [] s"

text \<open>The character class \<open>[a-zA-Z0-9]\<close>.\<close>

definition is_alnum :: "char \<Rightarrow> bool" where
  "is_alnum c =
     (let n = (of_char c :: nat)
      in (48 \<le> n \<and> n \<le> 57) \<or> (65 \<le> n \<and> n \<le> 90) \<or> (97 \<le> n \<and> n \<le> 122))"

text \<open>
  The pattern \<open>(twitter\.com|x\.com)/i/spaces/([a-zA-Z0-9]+)\<close> anchored at the head of
  \<open>s\<close>; the result is the greedy identifier group.
\<close>

definition match_spaces_at :: "string \<Rightarrow> string option" where
  "match_spaces_at s =
     (let after_host =
            (if startswith s ''twitter.com'' then Some (drop 11 s)
             else if startswith s ''x.com'' then Some (drop 5 s)
             else None)
      in case after_host of
           None \<Rightarrow> None
         | Some r \<Rightarrow>
             if startswith r ''/i/spaces/''
             then (let ident = takeWhile is_alnum (drop 10 r)
                   in if ident = [] then None else Some ident)
             else None)"

text \<open>\<open>re.search\<close> with that pattern: the leftmost position where it matches.\<close>

fun search_spaces :: "string \<Rightarrow> string option" where
  "search_spaces [] = None"
| "search_spaces (c # cs) =
     (case match_spaces_at (c # cs) of
        Some ident \<Rightarrow> Some ident
      | None \<Rightarrow> search_spaces cs)"

text \<open>\<open>services/transcription.py\<close>, \<open>is_x_spaces_url\<close>.\<close>

definition is_x_spaces_url :: "string \<Rightarrow> bool" where
  "is_x_spaces_url url = (search_spaces url \<noteq> None)"

section \<open>URL identity (\<open>api/routes/episodes.py\<close>)\<close>

definition normalize_url :: "string \<Rightarrow> string" where
  "normalize_url url =
     (if py_in ''youtube.com'' url \<or> py_in ''youtu.be'' url then
        (let video_id =
               (if py_in ''youtu.be/'' url then hd (split (last (split url ''youtu.be/'')) ''?'')
                else if py_in ''v='' url then hd (split (last (split url ''v='')) ''&'')
                else url)
         in ''https://youtube.com/watch?v='' @ video_id)
      else
        (case (if is_x_spaces_url url then search_spaces url else None) of
           Some ident \<Rightarrow> ''https://x.com/i/spaces/'' @ ident
         | None \<Rightarrow> hd (split url ''?'')))"

text \<open>
  \<open>get_url_hash\<close>: the first 32 hex digits of the SHA-256 of the normalized URL. The
  digest function is the standard library's; it is a parameter here.
\<close>

definition get_url_hash :: "(string \<Rightarrow> string) \<Rightarrow> string \<Rightarrow> string" where
  "get_url_hash sha256_hexdigest url = take 32 (sha256_hexdigest (normalize_url url))"

section \<open>Data model (\<open>models/schemas.py\<close>)\<close>

text \<open>
  Each table row is a record; a nullable column is an \<open>option\<close>. Record fields share one
  name space, so each field carries its table's prefix (\<open>ep_status\<close> is \<open>Episode.status\<close>).
  Primary keys are Python integers. Times are seconds on the clock the caller supplies.
  \<open>Episode.url\<close> is given a value by both creators of episodes (the poller and the
  submission route), and every function that reads it is annotated \<open>url: str\<close>.
\<close>

datatype EpisodeStatus = PENDING | PROCESSING | COMPLETED | FAILED

record Source =
  src_id :: int
  src_url :: string
  src_name :: "string option"
  src_source_type :: "string option"
  src_last_checked_at :: "nat option"

record Episode =
  ep_id :: int
  ep_source_id :: "int option"
  ep_unique_id :: string
  ep_title :: "string option"
  ep_url :: string
  ep_audio_url :: "string option"
  ep_transcript :: "string option"
  ep_summary :: "string option"
  ep_status :: EpisodeStatus
  ep_error_message :: "string option"
  ep_published_at :: "nat option"
  ep_processed_at :: "nat option"

record User =
  usr_id :: int
  usr_email :: "string option"
  usr_telegram_chat_id :: "string option"
  usr_preferred_digest_time :: string
  usr_timezone :: string

record Subscription =
  sub_id :: int
  sub_user_id :: "int option"
  sub_source_id :: "int option"

record DailyDigestQueue =
  dq_id :: int
  dq_user_id :: "int option"
  dq_episode_id :: "int option"
  dq_date_added :: nat

text \<open>The committed contents of the database: one list of rows per table.\<close>

record database =
  sources :: "Source list"
  episodes :: "Episode list"
  users :: "User list"
  subscriptions :: "Subscription list"
  daily_digest_queue :: "DailyDigestQueue list"

text \<open>\<open>EpisodeStatus.value\<close>.\<close>

fun status_value :: "EpisodeStatus \<Rightarrow> string" where
  "status_value PENDING = ''pending''"
| "status_value PROCESSING = ''processing''"
| "status_value COMPLETED = ''completed''"
| "status_value FAILED = ''failed''"

text \<open>Python truthiness of an optional string and of an optional integer.\<close>

fun truthy_str :: "string option \<Rightarrow> bool" where
  "truthy_str None = False"
| "truthy_str (Some s) = (s \<noteq> [])"

fun truthy_int :: "int option \<Rightarrow> bool" where
  "truthy_int None = False"
| "truthy_int (Some i) = (i \<noteq> 0)"

text \<open>\<open>str(x)\<close> inside an f-string, for an optional string: \<open>None\<close> prints as \<open>None\<close>.\<close>

fun py_str :: "string option \<Rightarrow> string" where
  "py_str None = ''None''"
| "py_str (Some s) = s"

text \<open>\<open>db.query(T).filter(T.id == i).first()\<close> for the three tables looked up by key.\<close>

definition get_episode :: "database \<Rightarrow> int \<Rightarrow> Episode option" where
  "get_episode db i = find (\<lambda>e. ep_id e = i) (episodes db)"

definition get_source :: "database \<Rightarrow> int \<Rightarrow> Source option" where
  "get_source db i = find (\<lambda>s. src_id s = i) (sources db)"

definition get_user :: "database \<Rightarrow> int \<Rightarrow> User option" where
  "get_user db i = find (\<lambda>u. usr_id u = i) (users db)"

text \<open>
  \<open>db.commit()\<close> after attributes of a loaded episode were assigned: the row with that
  primary key is replaced by the object's current state.
\<close>

definition commit_episode :: "database \<Rightarrow> Episode \<Rightarrow> database" where
  "commit_episode db e =
     db\<lparr>episodes := map (\<lambda>x. if ep_id x = ep_id e then e else x) (episodes db)\<rparr>"

text \<open>The key an autoincrement column gives the next inserted row.\<close>

definition fresh_id :: "int list \<Rightarrow> int" where
  "fresh_id ids = fold max ids 0 + 1"

section \<open>External capabilities\<close>

text \<open>
  Exceptions are values. The handlers of the tasks tell \<open>NoCaptionsError\<close> from every
  other exception; the argument is \<open>str(e)\<close>. \<open>IntegrityError\<close> is what the commit of a
  row raises when the database refuses it.
\<close>

datatype exn =
    NoCaptionsError string
  | ValueError string
  | IntegrityError string
  | Exception string

fun exn_str :: "exn \<Rightarrow> string" where
  "exn_str (NoCaptionsError m) = m"
| "exn_str (ValueError m) = m"
| "exn_str (IntegrityError m) = m"
| "exn_str (Exception m) = m"

text \<open>
  The network and subprocess calls of the services are opaque: each is a function from its
  arguments to an exception or a result. \<open>get_video_title\<close> catches every exception and
  returns \<open>None\<close>. \<open>summary_completion\<close> is the chat completion on \<open>SUMMARY_PROMPT\<close> with the
  given text in place of \<open>{transcript}\<close>; \<open>digest_completion\<close> the one on
  \<open>DIGEST_SYNTHESIS_PROMPT\<close> with the given text in place of \<open>{summaries}\<close>.
  \<open>utcnow_strftime\<close> is \<open>datetime.utcnow().strftime(fmt)\<close>.
\<close>

record capabilities =
  get_video_title :: "string \<Rightarrow> string option"
  process_youtube_episode :: "string \<Rightarrow> exn + string"
  process_x_spaces :: "string \<Rightarrow> exn + string"
  process_podcast_episode :: "string \<Rightarrow> exn + string"
  summary_completion :: "string \<Rightarrow> exn + string"
  digest_completion :: "string \<Rightarrow> exn + string"
  send_telegram :: "string \<Rightarrow> string \<Rightarrow> exn + bool"
  send_email :: "string \<Rightarrow> string \<Rightarrow> string \<Rightarrow> exn + bool"
  markdown_to_html :: "string \<Rightarrow> string"
  utcnow :: nat
  utcnow_strftime :: "string \<Rightarrow> string"

text \<open>The trace of capability calls a task makes, in order.\<close>

datatype call =
    GetVideoTitle string
  | ProcessYoutubeEpisode string
  | ProcessXSpaces string
  | ProcessPodcastEpisode string
  | SummaryCompletion string
  | DigestCompletion string
  | SendTelegram string string
  | SendEmail string string string

section \<open>Summarization (\<open>services/summarization.py\<close>)\<close>

text \<open>\<open>xs[:n]\<close>: a negative bound counts from the end.\<close>

definition py_slice_to :: "'a list \<Rightarrow> int \<Rightarrow> 'a list" where
  "py_slice_to xs n =
     (if 0 \<le> n then take (nat n) xs else take (nat (int (length xs) + n)) xs)"

definition TRUNCATION_MARKER :: string where
  "TRUNCATION_MARKER = [CHR 10, CHR 10] @ ''[Transcript truncated due to length...]''"

text \<open>
  \<open>summarize_transcript(transcript, max_chars)\<close>: the text put into the prompt, then the
  completion. The result is the trace and the completion's outcome.
\<close>

definition summarize_input :: "string \<Rightarrow> int \<Rightarrow> string" where
  "summarize_input transcript max_chars =
     (if int (length transcript) > max_chars
      then py_slice_to transcript max_chars @ TRUNCATION_MARKER
      else transcript)"

definition summarize_transcript ::
  "capabilities \<Rightarrow> string \<Rightarrow> int \<Rightarrow> call list \<times> (exn + string)" where
  "summarize_transcript caps transcript max_chars =
     (let t = summarize_input transcript max_chars
      in ([SummaryCompletion t], summary_completion caps t))"

definition DEFAULT_MAX_CHARS :: int where
  "DEFAULT_MAX_CHARS = 100000"

text \<open>
  \<open>synthesize_digest(summaries)\<close>, on the list of (title, summary) pairs. The title is
  printed by an f-string, so a missing title prints as \<open>None\<close>.
\<close>

definition digest_entry :: "string option \<times> string \<Rightarrow> string" where
  "digest_entry s = ''**'' @ py_str (fst s) @ ''**'' @ [CHR 10, CHR 10] @ snd s"

text \<open>\<open>sep.join(parts)\<close>.\<close>

fun join :: "string \<Rightarrow> string list \<Rightarrow> string" where
  "join sep [] = []"
| "join sep [x] = x"
| "join sep (x # y # ys) = x @ sep @ join sep (y # ys)"

definition DIGEST_SEPARATOR :: string where
  "DIGEST_SEPARATOR = [CHR 10, CHR 10] @ ''---'' @ [CHR 10, CHR 10]"

definition synthesize_digest ::
  "capabilities \<Rightarrow> (string option \<times> string) list \<Rightarrow> call list \<times> (exn + string)" where
  "synthesize_digest caps summaries =
     (case summaries of
        [] \<Rightarrow> ([], Inr ''No new content to summarize today.'')
      | [s] \<Rightarrow> ([], Inr (''# '' @ py_str (fst s) @ [CHR 10, CHR 10] @ snd s))
      | _ \<Rightarrow>
          (let formatted = join DIGEST_SEPARATOR (map digest_entry summaries)
           in ([DigestCompletion formatted], digest_completion caps formatted)))"

section \<open>Jobs and the task queue (\<open>workers/celery_app.py\<close>)\<close>

text \<open>
  A job handed to the queue by \<open>task.delay(...)\<close>, with the arguments of the call;
  the immediate digest is sent with the submission's optional user id as it stands.
\<close>

datatype job =
    ProcessEpisodeJob int
  | SendImmediateDigestJob "int option" int

text \<open>The dictionaries the tasks return.\<close>

datatype task_result =
    ErrorResult string
  | AlreadyCompleted
  | CompletedResult int
  | FailedNoCaptions string
  | NoPendingItems
  | NoCompletedSummaries
  | Delivered nat

text \<open>
  How one execution of a task ends: it returns, it asks the queue to run it again after
  \<open>countdown\<close> seconds, or it raises and is not run again.
\<close>

datatype outcome =
    Returned task_result
  | RetryScheduled nat exn
  | Raised exn

text \<open>
  \<open>self.retry(exc=e, countdown=c)\<close> of the task library, for a task declared with
  \<open>max_retries\<close>: when the execution's retry counter plus one exceeds \<open>max_retries\<close> the
  original exception is raised, otherwise the task is sent again with the counter
  incremented and the \<open>Retry\<close> signal is raised.
\<close>

definition retry :: "nat \<Rightarrow> nat \<Rightarrow> exn \<Rightarrow> nat \<Rightarrow> outcome" where
  "retry max_retries request_retries exc countdown =
     (if request_retries + 1 > max_retries then Raised exc
      else RetryScheduled countdown exc)"

definition MAX_RETRIES :: nat where
  "MAX_RETRIES = 3"

section \<open>Routes (\<open>api/routes/episodes.py\<close>)\<close>

datatype http_error = HTTPException nat string

text \<open>The body of a submission response: message, episode id, status.\<close>

type_synonym submit_response = "string \<times> int \<times> string"

text \<open>The queue row \<open>DailyDigestQueue(user_id=u, episode_id=e)\<close> once inserted.\<close>

definition new_queue_item :: "nat \<Rightarrow> DailyDigestQueue list \<Rightarrow> int option \<Rightarrow> int \<Rightarrow> DailyDigestQueue" where
  "new_queue_item now rows user_id episode_id =
     \<lparr>dq_id = fresh_id (map dq_id rows), dq_user_id = user_id,
      dq_episode_id = Some episode_id, dq_date_added = now\<rparr>"

text \<open>
  The database engine is configured outside the sources at hand. Two of its properties
  decide whether an insert is accepted: whether it enforces the declared foreign keys,
  and the largest value an \<open>Integer\<close> column stores (the smallest is its negative minus
  one).
\<close>

record engine =
  foreign_keys :: bool
  integer_max :: int

text \<open>
  \<open>db.add(queue_item); db.commit()\<close>. The table declares \<open>user_id\<close> a foreign key to
  \<open>users.id\<close> and \<open>episode_id\<close> one to \<open>episodes.id\<close>. The commit raises, and the row is
  not stored, when the user id does not fit the column, or when the engine enforces the
  references and the user or the episode does not exist.
\<close>

definition add_queue_item ::
  "engine \<Rightarrow> nat \<Rightarrow> database \<Rightarrow> int option \<Rightarrow> int \<Rightarrow> exn + database" where
  "add_queue_item eng now db user_id episode_id =
     (if (case user_id of
            None \<Rightarrow> False
          | Some u \<Rightarrow> u < - integer_max eng - 1 \<or> integer_max eng < u)
      then Inl (Exception ''integer out of range'')
      else if foreign_keys eng
              \<and> ((case user_id of None \<Rightarrow> False | Some u \<Rightarrow> get_user db u = None)
                   \<or> get_episode db episode_id = None)
      then Inl (IntegrityError ''daily_digest_queue'')
      else Inr (db\<lparr>daily_digest_queue :=
                     daily_digest_queue db
                       @ [new_queue_item now (daily_digest_queue db) user_id episode_id]\<rparr>))"

text \<open>
  \<open>submit_url(submission, db)\<close>; \<open>url\<close> and \<open>user_id\<close> are the submission's fields. The
  result is the committed database, the jobs sent, and the response or the exception that
  left the route. A new episode is committed before its queue row is added, so it stays
  when that second commit raises; the processing job is sent after both commits.
\<close>

definition submit_url ::
  "(string \<Rightarrow> string) \<Rightarrow> engine \<Rightarrow> nat \<Rightarrow> database \<Rightarrow> string \<Rightarrow> int option
     \<Rightarrow> database \<times> job list \<times> (exn + submit_response)" where
  "submit_url sha256_hexdigest eng now db url user_id =
     (let url_hash = get_url_hash sha256_hexdigest url;
          normalized_url = normalize_url url
      in case find (\<lambda>e. ep_unique_id e = url_hash) (episodes db) of
           Some existing \<Rightarrow>
             if ep_status existing = COMPLETED \<and> truthy_int user_id then
               (db, [SendImmediateDigestJob user_id (ep_id existing)],
                Inr (''Summary already available, sending now'', ep_id existing,
                     status_value (ep_status existing)))
             else if ep_status existing = FAILED then
               (commit_episode db
                  (existing\<lparr>ep_status := PENDING, ep_error_message := None,
                            ep_url := normalize_url url\<rparr>),
                [ProcessEpisodeJob (ep_id existing)],
                Inr (''Retrying failed episode'', ep_id existing, ''pending''))
             else if truthy_int user_id then
               (case add_queue_item eng now db user_id (ep_id existing) of
                  Inl ex \<Rightarrow> (db, [], Inl ex)
                | Inr db' \<Rightarrow>
                    (db', [],
                     Inr (''Already processing'', ep_id existing,
                          status_value (ep_status existing))))
             else
               (db, [],
                Inr (''Already processing'', ep_id existing, status_value (ep_status existing)))
         | None \<Rightarrow>
             (let source_type =
                    (if py_in ''youtube.com'' normalized_url \<or> py_in ''youtu.be'' normalized_url
                     then ''youtube''
                     else if is_x_spaces_url normalized_url then ''x_spaces''
                     else ''podcast'');
                  episode =
                    \<lparr>ep_id = fresh_id (map ep_id (episodes db)), ep_source_id = None,
                     ep_unique_id = url_hash, ep_title = None, ep_url = normalized_url,
                     ep_audio_url = (if source_type = ''podcast'' then Some url else None),
                     ep_transcript = None, ep_summary = None, ep_status = PENDING,
                     ep_error_message = None, ep_published_at = None, ep_processed_at = None\<rparr>;
                  db1 = db\<lparr>episodes := episodes db @ [episode]\<rparr>
              in if truthy_int user_id then
                   (case add_queue_item eng now db1 user_id (ep_id episode) of
                      Inl ex \<Rightarrow> (db1, [], Inl ex)
                    | Inr db2 \<Rightarrow>
                        (db2, [ProcessEpisodeJob (ep_id episode)],
                         Inr (''Processing started'', ep_id episode, ''pending'')))
                 else
                   (db1, [ProcessEpisodeJob (ep_id episode)],
                    Inr (''Processing started'', ep_id episode, ''pending''))))"

text \<open>\<open>reprocess_episode(episode_id, db)\<close>.\<close>

definition reprocess_episode ::
  "database \<Rightarrow> int \<Rightarrow> database \<times> job list \<times> (http_error + string)" where
  "reprocess_episode db episode_id =
     (case get_episode db episode_id of
        None \<Rightarrow> (db, [], Inl (HTTPException 404 ''Episode not found''))
      | Some episode \<Rightarrow>
          if ep_status episode = PROCESSING then (db, [], Inr ''Already processing'')
          else (commit_episode db (episode\<lparr>ep_status := PENDING\<rparr>),
                [ProcessEpisodeJob episode_id], Inr ''Reprocessing started''))"

section \<open>Episode processing (\<open>workers/tasks.py\<close>)\<close>

text \<open>
  The session that runs \<open>queue_for_subscribers\<close> is made by \<open>SessionLocal\<close>, whose
  settings are not part of the sources at hand. \<open>autoflush\<close> is that session's setting:
  when it holds, the duplicate check of a later iteration sees the rows added by earlier
  ones; when it does not, the check sees only rows already written.
\<close>

fun queue_loop ::
  "bool \<Rightarrow> nat \<Rightarrow> Episode \<Rightarrow> DailyDigestQueue list \<Rightarrow> DailyDigestQueue list
     \<Rightarrow> Subscription list \<Rightarrow> DailyDigestQueue list" where
  "queue_loop autoflush now episode written pending [] = pending"
| "queue_loop autoflush now episode written pending (sub # subs) =
     (let visible = (if autoflush then written @ pending else written);
          existing = find (\<lambda>q. dq_user_id q = sub_user_id sub
                               \<and> dq_episode_id q = Some (ep_id episode)) visible
      in case existing of
           Some q \<Rightarrow> queue_loop autoflush now episode written pending subs
         | None \<Rightarrow>
             queue_loop autoflush now episode written
               (pending @ [new_queue_item now (written @ pending) (sub_user_id sub) (ep_id episode)])
               subs)"

definition queue_for_subscribers :: "bool \<Rightarrow> nat \<Rightarrow> database \<Rightarrow> Episode \<Rightarrow> database" where
  "queue_for_subscribers autoflush now db episode =
     (let subs = filter (\<lambda>s. sub_source_id s = ep_source_id episode) (subscriptions db)
      in db\<lparr>daily_digest_queue :=
              daily_digest_queue db
                @ queue_loop autoflush now episode (daily_digest_queue db) [] subs\<rparr>)"

text \<open>\<open>str(n)\<close> for an integer, as the f-string of the error message prints it.\<close>

fun str_nat :: "nat \<Rightarrow> string" where
  "str_nat n =
     (if n < 10 then [char_of (48 + n)]
      else str_nat (n div 10) @ [char_of (48 + n mod 10)])"

declare str_nat.simps [simp del]

definition str_int :: "int \<Rightarrow> string" where
  "str_int i = (if i < 0 then CHR ''-'' # str_nat (nat (- i)) else str_nat (nat i))"

text \<open>
  Steps 3 of \<open>process_episode_task\<close>: the source's type when the episode has a source,
  else a type read off the URL; \<open>ValueError\<close> when neither gives one.
\<close>

definition source_type_of :: "database \<Rightarrow> Episode \<Rightarrow> exn + string option" where
  "source_type_of db episode =
     (let source = (case ep_source_id episode of
                      None \<Rightarrow> None
                    | Some i \<Rightarrow> if i = 0 then None else get_source db i)
      in case source of
           Some s \<Rightarrow> Inr (src_source_type s)
         | None \<Rightarrow>
             if py_in ''youtube.com'' (ep_url episode) \<or> py_in ''youtu.be'' (ep_url episode)
             then Inr (Some ''youtube'')
             else if is_x_spaces_url (ep_url episode) then Inr (Some ''x_spaces'')
             else if truthy_str (ep_audio_url episode) then Inr (Some ''podcast'')
             else Inl (ValueError (''Cannot determine source type for episode ''
                                    @ str_int (ep_id episode))))"

text \<open>
  The title fetch of the YouTube and X Spaces branches: only for an episode without a
  title; a title found is committed at once.
\<close>

definition fetch_title :: "capabilities \<Rightarrow> database \<Rightarrow> Episode \<Rightarrow> database \<times> Episode \<times> call list" where
  "fetch_title caps db episode =
     (if truthy_str (ep_title episode) then (db, episode, [])
      else (let title = get_video_title caps (ep_url episode)
            in if truthy_str title
               then (let e' = episode\<lparr>ep_title := title\<rparr>
                     in (commit_episode db e', e', [GetVideoTitle (ep_url episode)]))
               else (db, episode, [GetVideoTitle (ep_url episode)])))"

text \<open>
  The transcription step by source type. The result is the committed database, the
  episode object, the calls made and the transcript, or the exception raised.
\<close>

definition transcribe ::
  "capabilities \<Rightarrow> database \<Rightarrow> Episode \<Rightarrow> string option
     \<Rightarrow> database \<times> Episode \<times> call list \<times> (exn + string)" where
  "transcribe caps db episode source_type =
     (if source_type = Some ''youtube'' then
        (case fetch_title caps db episode of
           (db', e', log) \<Rightarrow>
             (db', e', log @ [ProcessYoutubeEpisode (ep_url e')],
              process_youtube_episode caps (ep_url e')))
      else if source_type = Some ''x_spaces'' then
        (case fetch_title caps db episode of
           (db', e', log) \<Rightarrow>
             (db', e', log @ [ProcessXSpaces (ep_url e')], process_x_spaces caps (ep_url e')))
      else
        (case ep_audio_url episode of
           None \<Rightarrow> (db, episode, [], Inl (ValueError ''No audio URL for podcast episode''))
         | Some audio \<Rightarrow>
             if audio = []
             then (db, episode, [], Inl (ValueError ''No audio URL for podcast episode''))
             else (db, episode, [ProcessPodcastEpisode audio], process_podcast_episode caps audio)))"

text \<open>
  The \<open>try\<close> block of \<open>process_episode_task\<close> from the commit of \<open>PROCESSING\<close> on, for
  an episode that was found and is not completed. The database in the result is the
  committed one: when an exception leaves the block, what was assigned to the episode
  object after the last commit is lost with the rollback.
\<close>

definition process_body ::
  "capabilities \<Rightarrow> bool \<Rightarrow> database \<Rightarrow> Episode \<Rightarrow> database \<times> call list \<times> (exn + task_result)" where
  "process_body caps autoflush db episode =
     (let e1 = episode\<lparr>ep_status := PROCESSING\<rparr>;
          db1 = commit_episode db e1
      in case source_type_of db1 e1 of
           Inl ex \<Rightarrow> (db1, [], Inl ex)
         | Inr source_type \<Rightarrow>
             (case transcribe caps db1 e1 source_type of
                (db2, e2, log2, Inl ex) \<Rightarrow> (db2, log2, Inl ex)
              | (db2, e2, log2, Inr transcript) \<Rightarrow>
                  (let e3 = e2\<lparr>ep_transcript := Some transcript\<rparr>
                   in case summarize_transcript caps transcript DEFAULT_MAX_CHARS of
                        (log3, Inl ex) \<Rightarrow> (db2, log2 @ log3, Inl ex)
                      | (log3, Inr summary) \<Rightarrow>
                          (let e4 = e3\<lparr>ep_summary := Some summary, ep_status := COMPLETED,
                                       ep_processed_at := Some (utcnow caps)\<rparr>;
                               db4 = commit_episode db2 e4;
                               db5 = queue_for_subscribers autoflush (utcnow caps) db4 e4
                           in (db5, log2 @ log3, Inr (CompletedResult (ep_id episode)))))))"

text \<open>
  The two handlers: after the rollback the episode is loaded again and marked \<open>FAILED\<close>;
  only the \<open>NoCaptionsError\<close> handler stores a message and returns, the other one calls
  \<open>self.retry\<close> with the countdown \<open>60 * 2 ** retries\<close>.
\<close>

definition mark_failed :: "database \<Rightarrow> int \<Rightarrow> string option \<Rightarrow> database" where
  "mark_failed db episode_id message =
     (case get_episode db episode_id of
        None \<Rightarrow> db
      | Some e \<Rightarrow>
          (case message of
             Some m \<Rightarrow> commit_episode db (e\<lparr>ep_status := FAILED, ep_error_message := Some m\<rparr>)
           | None \<Rightarrow> commit_episode db (e\<lparr>ep_status := FAILED\<rparr>)))"

definition handle_failure :: "nat \<Rightarrow> database \<Rightarrow> int \<Rightarrow> exn \<Rightarrow> database \<times> outcome" where
  "handle_failure request_retries db episode_id ex =
     (case ex of
        NoCaptionsError m \<Rightarrow>
          (mark_failed db episode_id (Some m), Returned (FailedNoCaptions m))
      | _ \<Rightarrow>
          (mark_failed db episode_id None,
           retry MAX_RETRIES request_retries ex (60 * 2 ^ request_retries)))"

text \<open>
  \<open>process_episode_task(self, episode_id)\<close>; \<open>request_retries\<close> is \<open>self.request.retries\<close>.
  The result is the committed database, the capability calls made, and how the
  execution ended.
\<close>

definition process_episode_task ::
  "capabilities \<Rightarrow> bool \<Rightarrow> nat \<Rightarrow> database \<Rightarrow> int \<Rightarrow> database \<times> call list \<times> outcome" where
  "process_episode_task caps autoflush request_retries db episode_id =
     (case get_episode db episode_id of
        None \<Rightarrow> (db, [], Returned (ErrorResult ''Episode not found''))
      | Some episode \<Rightarrow>
          if ep_status episode = COMPLETED then (db, [], Returned AlreadyCompleted)
          else (case process_body caps autoflush db episode of
                  (db', log, Inr r) \<Rightarrow> (db', log, Returned r)
                | (db', log, Inl ex) \<Rightarrow>
                    (case handle_failure request_retries db' episode_id ex of
                       (db'', out) \<Rightarrow> (db'', log, out))))"

section \<open>Digest dispatch (\<open>workers/tasks.py\<close>)\<close>

text \<open>The loop that gathers the (title, summary) pairs of the queued episodes.\<close>

fun gather_summaries :: "database \<Rightarrow> DailyDigestQueue list \<Rightarrow> (string option \<times> string) list" where
  "gather_summaries db [] = []"
| "gather_summaries db (item # items) =
     (case (case dq_episode_id item of None \<Rightarrow> None | Some i \<Rightarrow> get_episode db i) of
        None \<Rightarrow> gather_summaries db items
      | Some episode \<Rightarrow>
          (case ep_summary episode of
             None \<Rightarrow> gather_summaries db items
           | Some summary \<Rightarrow>
               if summary \<noteq> [] \<and> ep_status episode = COMPLETED
               then (ep_title episode, summary) # gather_summaries db items
               else gather_summaries db items))"

text \<open>
  One delivery attempt per channel. Each is inside its own \<open>try\<close>: an exception is
  printed and the attempt counts as not delivered.
\<close>

definition deliver_telegram :: "capabilities \<Rightarrow> User \<Rightarrow> string \<Rightarrow> bool \<times> call list" where
  "deliver_telegram caps user digest =
     (case usr_telegram_chat_id user of
        None \<Rightarrow> (False, [])
      | Some chat \<Rightarrow>
          if chat = [] then (False, [])
          else (case send_telegram caps chat digest of
                  Inr r \<Rightarrow> (True, [SendTelegram chat digest])
                | Inl ex \<Rightarrow> (False, [SendTelegram chat digest])))"

definition digest_subject :: "capabilities \<Rightarrow> string" where
  "digest_subject caps = ''Your Daily Knowledge Digest - '' @ utcnow_strftime caps ''%B %d''"

definition deliver_email :: "capabilities \<Rightarrow> User \<Rightarrow> string \<Rightarrow> bool \<times> call list" where
  "deliver_email caps user digest =
     (case usr_email user of
        None \<Rightarrow> (False, [])
      | Some addr \<Rightarrow>
          if addr = [] then (False, [])
          else (let html_digest = markdown_to_html caps digest
                in case send_email caps addr (digest_subject caps) html_digest of
                     Inr r \<Rightarrow> (True, [SendEmail addr (digest_subject caps) html_digest])
                   | Inl ex \<Rightarrow> (False, [SendEmail addr (digest_subject caps) html_digest])))"

text \<open>\<open>for item in queue_items: db.delete(item)\<close>, then the commit.\<close>

definition delete_queue_items :: "database \<Rightarrow> DailyDigestQueue list \<Rightarrow> database" where
  "delete_queue_items db items =
     db\<lparr>daily_digest_queue :=
          filter (\<lambda>q. dq_id q \<notin> set (map dq_id items)) (daily_digest_queue db)\<rparr>"

text \<open>The rows \<open>db.query(DailyDigestQueue).filter(user_id == u).all()\<close>.\<close>

definition user_queue :: "database \<Rightarrow> int \<Rightarrow> DailyDigestQueue list" where
  "user_queue db user_id = filter (\<lambda>q. dq_user_id q = Some user_id) (daily_digest_queue db)"

text \<open>\<open>send_user_digest_task(self, user_id)\<close>.\<close>

definition send_user_digest_task ::
  "capabilities \<Rightarrow> nat \<Rightarrow> database \<Rightarrow> int \<Rightarrow> database \<times> call list \<times> outcome" where
  "send_user_digest_task caps request_retries db user_id =
     (case get_user db user_id of
        None \<Rightarrow> (db, [], Returned (ErrorResult ''User not found''))
      | Some user \<Rightarrow>
          (let queue_items = user_queue db user_id
           in if queue_items = [] then (db, [], Returned NoPendingItems)
              else (let summaries = gather_summaries db queue_items
                    in if summaries = [] then (db, [], Returned NoCompletedSummaries)
                       else (case synthesize_digest caps summaries of
                               (log1, Inl ex) \<Rightarrow>
                                 (db, log1, retry MAX_RETRIES request_retries ex 300)
                             | (log1, Inr digest) \<Rightarrow>
                                 (case deliver_telegram caps user digest of
                                    (tg_ok, log2) \<Rightarrow>
                                      (case deliver_email caps user digest of
                                         (em_ok, log3) \<Rightarrow>
                                           if tg_ok \<or> em_ok
                                           then (delete_queue_items db queue_items,
                                                 log1 @ log2 @ log3,
                                                 Returned (Delivered (length summaries)))
                                           else (db, log1 @ log2 @ log3,
                                                 retry MAX_RETRIES request_retries
                                                   (Exception ''No delivery channel succeeded'')
                                                   300)))))))"

section \<open>The queue invariant\<close>

text \<open>No two rows of the digest queue carry the same (user, episode) pair.\<close>

definition queue_pair :: "DailyDigestQueue \<Rightarrow> int option \<times> int option" where
  "queue_pair q = (dq_user_id q, dq_episode_id q)"

definition queue_pairs_distinct :: "DailyDigestQueue list \<Rightarrow> bool" where
  "queue_pairs_distinct rows = distinct (map queue_pair rows)"

section \<open>Concrete capabilities and databases\<close>

text \<open>Capabilities under which every external call succeeds, and variations of them.\<close>

definition sample_caps :: capabilities where
  "sample_caps =
     \<lparr>get_video_title = (\<lambda>u. Some ''Title''),
      process_youtube_episode = (\<lambda>u. Inr ''transcript''),
      process_x_spaces = (\<lambda>u. Inr ''space''),
      process_podcast_episode = (\<lambda>u. Inr ''podcast''),
      summary_completion = (\<lambda>t. Inr ''summary''),
      digest_completion = (\<lambda>t. Inr ''digest''),
      send_telegram = (\<lambda>c m. Inr True),
      send_email = (\<lambda>a s h. Inr True),
      markdown_to_html = (\<lambda>m. m),
      utcnow = 1000,
      utcnow_strftime = (\<lambda>f. ''November 04'')\<rparr>"


definition no_captions_caps :: capabilities where
  "no_captions_caps =
     sample_caps\<lparr>process_youtube_episode := (\<lambda>u. Inl (NoCaptionsError ''no captions''))\<rparr>"

definition network_down_caps :: capabilities where
  "network_down_caps =
     sample_caps\<lparr>process_youtube_episode := (\<lambda>u. Inl (Exception ''network down''))\<rparr>"

definition telegram_down_caps :: capabilities where
  "telegram_down_caps = sample_caps\<lparr>send_telegram := (\<lambda>c m. Inl (Exception ''telegram down''))\<rparr>"

definition channels_down_caps :: capabilities where
  "channels_down_caps =
     sample_caps\<lparr>send_telegram := (\<lambda>c m. Inl (Exception ''telegram down'')),
                 send_email := (\<lambda>a s h. Inl (Exception ''email down''))\<rparr>"

text \<open>A YouTube episode with a title, parametrized by key, status, summary and message.\<close>

definition sample_episode ::
  "int \<Rightarrow> EpisodeStatus \<Rightarrow> string option \<Rightarrow> string option \<Rightarrow> Episode" where
  "sample_episode i st summary message =
     \<lparr>ep_id = i, ep_source_id = None, ep_unique_id = str_int i, ep_title = Some ''T'',
      ep_url = ''https://youtube.com/watch?v=abc12345678'', ep_audio_url = None,
      ep_transcript = None, ep_summary = summary, ep_status = st,
      ep_error_message = message, ep_published_at = None, ep_processed_at = None\<rparr>"

definition telegram_user :: User where
  "telegram_user =
     \<lparr>usr_id = 1, usr_email = None, usr_telegram_chat_id = Some ''42'',
      usr_preferred_digest_time = ''08:00'', usr_timezone = ''UTC''\<rparr>"

definition both_channels_user :: User where
  "both_channels_user =
     \<lparr>usr_id = 1, usr_email = Some ''a@b.c'', usr_telegram_chat_id = Some ''42'',
      usr_preferred_digest_time = ''08:00'', usr_timezone = ''UTC''\<rparr>"

definition queue_row :: "int \<Rightarrow> int \<Rightarrow> int \<Rightarrow> DailyDigestQueue" where
  "queue_row i u e = \<lparr>dq_id = i, dq_user_id = Some u, dq_episode_id = Some e, dq_date_added = 0\<rparr>"

definition empty_db :: database where
  "empty_db = \<lparr>sources = [], episodes = [], users = [], subscriptions = [],
               daily_digest_queue = []\<rparr>"

text \<open>An engine with 32-bit integer columns, enforcing foreign keys or not.\<close>

definition sample_engine :: "bool \<Rightarrow> engine" where
  "sample_engine fk = \<lparr>foreign_keys = fk, integer_max = 2147483647\<rparr>"

definition one_user_db :: "User \<Rightarrow> database" where
  "one_user_db u = empty_db\<lparr>users := [u]\<rparr>"

definition one_episode_db :: "Episode \<Rightarrow> database" where
  "one_episode_db e = empty_db\<lparr>episodes := [e]\<rparr>"

text \<open>
  A user with one queued completed episode and one queued pending episode; the same
  with both episodes completed; and with only the completed one queued.
\<close>

definition mixed_queue_db :: "User \<Rightarrow> database" where
  "mixed_queue_db u =
     empty_db\<lparr>episodes := [sample_episode 1 COMPLETED (Some ''S'') None,
                           sample_episode 2 PENDING None None],
              users := [u],
              daily_digest_queue := [queue_row 1 1 1, queue_row 2 1 2]\<rparr>"

definition two_completed_db :: "User \<Rightarrow> database" where
  "two_completed_db u =
     empty_db\<lparr>episodes := [sample_episode 1 COMPLETED (Some ''S'') None,
                           sample_episode 2 COMPLETED (Some ''R'') None],
              users := [u],
              daily_digest_queue := [queue_row 1 1 1, queue_row 2 1 2]\<rparr>"

definition one_completed_db :: "User \<Rightarrow> database" where
  "one_completed_db u =
     empty_db\<lparr>episodes := [sample_episode 1 COMPLETED (Some ''S'') None],
              users := [u],
              daily_digest_queue := [queue_row 1 1 1]\<rparr>"

section \<open>Facts about the string primitives\<close>

lemma split_acc_nonempty: "split_acc sep acc s \<noteq> []"
  by (induction sep acc s rule: split_acc.induct) auto

lemma split_nonempty: "split s sep \<noteq> []"
  by (simp add: split_def split_acc_nonempty)

section \<open>Facts about the database operations\<close>

lemmas sample_defs =
  sample_caps_def no_captions_caps_def network_down_caps_def telegram_down_caps_def
  channels_down_caps_def sample_episode_def telegram_user_def both_channels_user_def
  queue_row_def empty_db_def one_user_db_def one_episode_db_def mixed_queue_db_def
  two_completed_db_def
  one_completed_db_def

lemmas digest_defs =
  send_user_digest_task_def get_user_def user_queue_def get_episode_def
  synthesize_digest_def deliver_telegram_def deliver_email_def delete_queue_items_def
  digest_subject_def retry_def MAX_RETRIES_def

lemma get_episode_id: "get_episode db i = Some e \<Longrightarrow> ep_id e = i"
  by (auto simp: get_episode_def find_Some_iff)

lemma find_map_replace:
  "find (\<lambda>x. ep_id x = i) xs = Some e \<Longrightarrow> ep_id e' = i \<Longrightarrow>
   find (\<lambda>x. ep_id x = i) (map (\<lambda>x. if ep_id x = i then e' else x) xs) = Some e'"
  by (induction xs) (auto split: if_splits)

lemma get_episode_commit:
  "get_episode db i = Some e \<Longrightarrow> ep_id e' = i \<Longrightarrow>
   get_episode (commit_episode db e') i = Some e'"
  by (simp add: get_episode_def commit_episode_def find_map_replace)

lemma commit_episode_twice:
  "ep_id e1 = ep_id e2 \<Longrightarrow> commit_episode (commit_episode db e1) e2 = commit_episode db e2"
  by (simp add: commit_episode_def)

lemma commit_episode_queue [simp]:
  "daily_digest_queue (commit_episode db e) = daily_digest_queue db"
  by (simp add: commit_episode_def)

text \<open>The episode being processed is still in the database when the \<open>try\<close> block fails.\<close>

lemma fetch_title_episode:
  assumes "get_episode db i = Some x" "ep_id e = i" "fetch_title caps db e = (db', e', log)"
  shows "\<exists>y. get_episode db' i = Some y"
  using assms
  by (auto simp: fetch_title_def Let_def get_episode_commit split: if_splits)

lemma transcribe_episode:
  assumes "get_episode db i = Some x" "ep_id e = i"
      and "transcribe caps db e st = (db', e', log, res)"
  shows "\<exists>y. get_episode db' i = Some y"
  using assms
  by (auto simp: transcribe_def split: if_splits prod.splits option.splits
           dest: fetch_title_episode)

lemma process_body_failure_episode:
  assumes "get_episode db i = Some e" "process_body caps af db e = (db', log, Inl ex)"
  shows "\<exists>y. get_episode db' i = Some y"
proof -
  let ?e1 = "e\<lparr>ep_status := PROCESSING\<rparr>"
  let ?db1 = "commit_episode db ?e1"
  have id: "ep_id ?e1 = i" using assms(1) by (simp add: get_episode_id)
  have g1: "get_episode ?db1 i = Some ?e1"
    using assms(1) id by (simp add: get_episode_commit)
  from assms(2) consider
      (direct) "db' = ?db1"
    | (later) st e2 log2 res where "transcribe caps ?db1 ?e1 st = (db', e2, log2, res)"
    by (auto simp: process_body_def Let_def split: sum.splits prod.splits)
  then show ?thesis
  proof cases
    case direct
    with g1 show ?thesis by simp
  next
    case later
    from transcribe_episode [OF g1 id later] show ?thesis .
  qed
qed

lemma mark_failed_message:
  "get_episode db i = Some e \<Longrightarrow>
   get_episode (mark_failed db i (Some m)) i
     = Some (e\<lparr>ep_status := FAILED, ep_error_message := Some m\<rparr>)"
  by (simp add: mark_failed_def get_episode_commit get_episode_id)

lemma mark_failed_plain:
  "get_episode db i = Some e \<Longrightarrow>
   get_episode (mark_failed db i None) i = Some (e\<lparr>ep_status := FAILED\<rparr>)"
  by (simp add: mark_failed_def get_episode_commit get_episode_id)

text \<open>
  The guard of the task: a completed episode is left alone, and an episode in
  \<open>PROCESSING\<close> is handled as the same episode in \<open>PENDING\<close> is.
\<close>

lemma process_episode_task_guard:
  assumes "get_episode db episode_id = Some e"
  shows "(ep_status e = COMPLETED \<longrightarrow>
            process_episode_task caps af r db episode_id = (db, [], Returned AlreadyCompleted))
       \<and> (ep_status e = PROCESSING \<longrightarrow>
            process_episode_task caps af r db episode_id
              = process_episode_task caps af r
                  (commit_episode db (e\<lparr>ep_status := PENDING\<rparr>)) episode_id)"
proof (intro conjI impI)
  assume "ep_status e = COMPLETED"
  with assms show "process_episode_task caps af r db episode_id = (db, [], Returned AlreadyCompleted)"
    by (simp add: process_episode_task_def)
next
  assume st: "ep_status e = PROCESSING"
  let ?e' = "e\<lparr>ep_status := PENDING\<rparr>"
  let ?db' = "commit_episode db ?e'"
  have id: "ep_id e = episode_id" using assms by (rule get_episode_id)
  have g': "get_episode ?db' episode_id = Some ?e'"
    using assms id by (simp add: get_episode_commit)
  have body: "process_body caps af ?db' ?e' = process_body caps af db e"
    by (simp add: process_body_def commit_episode_twice Let_def split: sum.split prod.split)
  show "process_episode_task caps af r db episode_id = process_episode_task caps af r ?db' episode_id"
    using assms g' st body by (simp add: process_episode_task_def)
qed

lemmas process_defs =
  process_episode_task_def process_body_def source_type_of_def transcribe_def fetch_title_def
  summarize_transcript_def summarize_input_def DEFAULT_MAX_CHARS_def queue_for_subscribers_def
  handle_failure_def mark_failed_def retry_def MAX_RETRIES_def get_episode_def get_source_def
  commit_episode_def

text \<open>Two failing runs of the \<open>try\<close> block, evaluated.\<close>

lemma body_no_captions:
  "process_body no_captions_caps True (one_episode_db (sample_episode 1 PENDING None None))
     (sample_episode 1 PENDING None None)
   = (one_episode_db (sample_episode 1 PROCESSING None None),
      [ProcessYoutubeEpisode ''https://youtube.com/watch?v=abc12345678''],
      Inl (NoCaptionsError ''no captions''))"
  by (simp add: sample_defs process_defs Let_def)

lemma body_network_down:
  "process_body network_down_caps True (one_episode_db (sample_episode 1 PENDING None None))
     (sample_episode 1 PENDING None None)
   = (one_episode_db (sample_episode 1 PROCESSING None None),
      [ProcessYoutubeEpisode ''https://youtube.com/watch?v=abc12345678''],
      Inl (Exception ''network down''))"
  by (simp add: sample_defs process_defs Let_def)

section \<open>Facts about digest dispatch\<close>

lemma user_queue_deleted:
  "user_queue (delete_queue_items db (user_queue db u)) u = []"
  by (auto simp: user_queue_def delete_queue_items_def filter_empty_conv)

lemma gather_summaries_nonempty: "gather_summaries db items \<noteq> [] \<Longrightarrow> items \<noteq> []"
  by (cases items) auto

lemma deliver_telegram_attempt:
  "snd (deliver_telegram caps user digest)
     = (if truthy_str (usr_telegram_chat_id user)
        then [SendTelegram (the (usr_telegram_chat_id user)) digest] else [])"
  by (auto simp: deliver_telegram_def split: option.splits sum.splits)

lemma deliver_email_attempt:
  "snd (deliver_email caps user digest)
     = (if truthy_str (usr_email user)
        then [SendEmail (the (usr_email user)) (digest_subject caps) (markdown_to_html caps digest)]
        else [])"
  by (auto simp: deliver_email_def Let_def split: option.splits sum.splits)

lemma deliver_telegram_ok:
  "fst (deliver_telegram caps user digest)
     = (truthy_str (usr_telegram_chat_id user)
        \<and> \<not> isl (send_telegram caps (the (usr_telegram_chat_id user)) digest))"
  by (auto simp: deliver_telegram_def split: option.splits sum.splits)

lemma deliver_email_ok:
  "fst (deliver_email caps user digest)
     = (truthy_str (usr_email user)
        \<and> \<not> isl (send_email caps (the (usr_email user)) (digest_subject caps)
                    (markdown_to_html caps digest)))"
  by (auto simp: deliver_email_def Let_def split: option.splits sum.splits)

lemma send_user_digest_task_unfold:
  assumes "get_user db user_id = Some user"
      and "gather_summaries db (user_queue db user_id) \<noteq> []"
      and "synthesize_digest caps (gather_summaries db (user_queue db user_id)) = (log1, Inr digest)"
  shows "send_user_digest_task caps r db user_id =
           (if fst (deliver_telegram caps user digest) \<or> fst (deliver_email caps user digest)
            then (delete_queue_items db (user_queue db user_id),
                  log1 @ snd (deliver_telegram caps user digest) @ snd (deliver_email caps user digest),
                  Returned (Delivered (length (gather_summaries db (user_queue db user_id)))))
            else (db,
                  log1 @ snd (deliver_telegram caps user digest) @ snd (deliver_email caps user digest),
                  retry MAX_RETRIES r (Exception ''No delivery channel succeeded'') 300))"
  using assms gather_summaries_nonempty [OF assms(2)]
  by (simp add: send_user_digest_task_def Let_def split: prod.splits)

lemma gather_one:
  "gather_summaries (one_completed_db u) (user_queue (one_completed_db u) 1) = [(Some ''T'', ''S'')]"
  by (simp add: sample_defs user_queue_def get_episode_def)

lemma gather_two:
  "gather_summaries (two_completed_db u) (user_queue (two_completed_db u) 1)
     = [(Some ''T'', ''S''), (Some ''T'', ''R'')]"
  by (simp add: sample_defs user_queue_def get_episode_def)

lemma synthesize_single:
  "synthesize_digest caps [(title, summary)]
     = ([], Inr (''# '' @ py_str title @ [CHR 10, CHR 10] @ summary))"
  by (simp add: synthesize_digest_def)

lemma synthesize_many:
  "2 \<le> length summaries \<Longrightarrow>
   synthesize_digest caps summaries
     = ([DigestCompletion (join DIGEST_SEPARATOR (map digest_entry summaries))],
        digest_completion caps (join DIGEST_SEPARATOR (map digest_entry summaries)))"
  by (cases summaries; cases "tl summaries") (auto simp: synthesize_digest_def Let_def)

lemma send_user_digest_task_log_head:
  assumes "get_user db user_id = Some user"
      and "gather_summaries db (user_queue db user_id) \<noteq> []"
      and "synthesize_digest caps (gather_summaries db (user_queue db user_id)) = (c # cs, res)"
  shows "take 1 (fst (snd (send_user_digest_task caps r db user_id))) = [c]"
  using assms gather_summaries_nonempty [OF assms(2)]
  by (auto simp: send_user_digest_task_def Let_def split: prod.splits sum.splits)

section \<open>Facts about the queue invariant\<close>

text \<open>
  The fan-out checks for an existing row before it adds one: when the session flushes
  before each query, it keeps the (user, episode) pairs of the queue distinct.
\<close>

lemma queue_pair_new [simp]:
  "queue_pair (new_queue_item now rows u e) = (u, Some e)"
  by (simp add: queue_pair_def new_queue_item_def)

lemma queue_loop_distinct:
  "queue_pairs_distinct (written @ pending) \<Longrightarrow>
   queue_pairs_distinct (written @ queue_loop True now e written pending subs)"
proof (induction subs arbitrary: pending)
  case Nil
  then show ?case by simp
next
  case (Cons sub subs)
  show ?case
  proof (cases "find (\<lambda>q. dq_user_id q = sub_user_id sub \<and> dq_episode_id q = Some (ep_id e))
                  (written @ pending)")
    case None
    then have "(sub_user_id sub, Some (ep_id e)) \<notin> queue_pair ` set (written @ pending)"
      by (auto simp: find_None_iff queue_pair_def)
    with Cons.prems
    have "queue_pairs_distinct
            (written @ (pending @ [new_queue_item now (written @ pending) (sub_user_id sub) (ep_id e)]))"
      by (auto simp: queue_pairs_distinct_def)
    from Cons.IH [OF this] None show ?thesis by simp
  next
    case (Some q)
    with Cons.IH [OF Cons.prems] show ?thesis by simp
  qed
qed

lemma queue_for_subscribers_distinct:
  "queue_pairs_distinct (daily_digest_queue db) \<Longrightarrow>
   queue_pairs_distinct (daily_digest_queue (queue_for_subscribers True now db e))"
  using queue_loop_distinct [of "daily_digest_queue db" "[]"]
  by (simp add: queue_for_subscribers_def)

section \<open>Claims about URL identity\<close>

text \<open>
  C5. Claim: every accepted YouTube URL shape (\<open>watch?v=\<close>, \<open>youtu.be/\<close>, \<open>/embed/\<close>) with
  the same 11-character video id normalizes to \<open>https://youtube.com/watch?v=<id>\<close>. The
  route's \<open>normalize_url\<close> has no branch for \<open>/embed/\<close>: such a URL contains neither
  \<open>youtu.be/\<close> nor \<open>v=\<close>, so the whole URL is taken as the video id. The theorem evaluates
  the function at an embed URL and at the watch URL of the same video: the results differ.
\<close>

theorem normalize_url_embed_not_canonical:
  "normalize_url ''https://www.youtube.com/embed/abc12345678''
     = ''https://youtube.com/watch?v=https://www.youtube.com/embed/abc12345678''
   \<and> normalize_url ''https://www.youtube.com/watch?v=abc12345678''
     = ''https://youtube.com/watch?v=abc12345678''
   \<and> normalize_url ''https://youtu.be/abc12345678?t=5''
     = ''https://youtube.com/watch?v=abc12345678''"
  by (simp add: normalize_url_def split_def)

section \<open>Claims about summarization\<close>



section \<open>Claims about the routes\<close>

text \<open>
  C9. Claim: every operation that moves an episode from \<open>FAILED\<close> to \<open>PENDING\<close> also sets
  its error message to null. The retry branch of \<open>submit_url\<close> does; \<open>reprocess_episode\<close>
  assigns only the status. The theorem evaluates \<open>reprocess_episode\<close> on a failed episode
  that carries a message: the episode is \<open>PENDING\<close> afterwards and the message is still
  there.
\<close>

theorem reprocess_episode_keeps_error_message:
  "reprocess_episode (one_episode_db (sample_episode 1 FAILED None (Some ''no captions''))) 1
     = (one_episode_db (sample_episode 1 PENDING None (Some ''no captions'')),
        [ProcessEpisodeJob 1], Inr ''Reprocessing started'')"
  by (simp add: sample_defs reprocess_episode_def get_episode_def commit_episode_def)

text \<open>
  C10. For an episode that exists: when its status is not \<open>PROCESSING\<close> (whatever else
  it is, \<open>COMPLETED\<close> included), \<open>reprocess_episode\<close> commits the episode with status
  \<open>PENDING\<close> and every other field as it was, and sends one processing job for it; when
  its status is \<open>PROCESSING\<close>, the database is returned as it was and no job is sent.
\<close>

theorem reprocess_episode_resets:
  assumes "get_episode db episode_id = Some e"
  shows "(ep_status e \<noteq> PROCESSING \<longrightarrow>
            reprocess_episode db episode_id
              = (commit_episode db (e\<lparr>ep_status := PENDING\<rparr>), [ProcessEpisodeJob episode_id],
                 Inr ''Reprocessing started'')
            \<and> get_episode (fst (reprocess_episode db episode_id)) episode_id
              = Some (e\<lparr>ep_status := PENDING\<rparr>))
       \<and> (ep_status e = PROCESSING \<longrightarrow>
            reprocess_episode db episode_id = (db, [], Inr ''Already processing''))"
  using assms get_episode_id [OF assms]
  by (simp add: reprocess_episode_def get_episode_commit)

theorem reprocess_episode_resets_witness:
  "get_episode (one_episode_db (sample_episode 1 COMPLETED (Some ''S'') None)) 1
     = Some (sample_episode 1 COMPLETED (Some ''S'') None)
   \<and> ep_status (sample_episode 1 COMPLETED (Some ''S'') None) \<noteq> PROCESSING
   \<and> reprocess_episode (one_episode_db (sample_episode 1 COMPLETED (Some ''S'') None)) 1
       = (one_episode_db (sample_episode 1 PENDING (Some ''S'') None), [ProcessEpisodeJob 1],
          Inr ''Reprocessing started'')
   \<and> get_episode (one_episode_db (sample_episode 1 PROCESSING None None)) 1
       = Some (sample_episode 1 PROCESSING None None)
   \<and> ep_status (sample_episode 1 PROCESSING None None) = PROCESSING
   \<and> reprocess_episode (one_episode_db (sample_episode 1 PROCESSING None None)) 1
       = (one_episode_db (sample_episode 1 PROCESSING None None), [], Inr ''Already processing'')"
proof -
  have g1: "get_episode (one_episode_db (sample_episode 1 COMPLETED (Some ''S'') None)) 1
              = Some (sample_episode 1 COMPLETED (Some ''S'') None)"
    by (simp add: sample_defs get_episode_def)
  have g2: "get_episode (one_episode_db (sample_episode 1 PROCESSING None None)) 1
              = Some (sample_episode 1 PROCESSING None None)"
    by (simp add: sample_defs get_episode_def)
  show ?thesis
    using g1 g2 reprocess_episode_resets [OF g1] reprocess_episode_resets [OF g2]
    by (simp add: sample_defs commit_episode_def)
qed

text \<open>
  C3. Claim: every operation that creates a queue row keeps the (user, episode) pairs of
  the queue distinct, and submitting the same URL twice with the same user id before
  processing completes creates no duplicate. \<open>queue_for_subscribers\<close> looks for an
  existing row first; \<open>submit_url\<close> adds its row without looking. The theorem evaluates
  two submissions of one URL by user 1 on a database that holds user 1 and nothing else,
  for any digest function, on an engine with 32-bit integer columns, whether or not it
  enforces foreign keys: both submissions are answered, there is one episode, still
  \<open>PENDING\<close>, and the queue holds the pair (1, 1) twice.
\<close>

theorem submit_url_twice_duplicates:
  "map queue_pair
     (daily_digest_queue
        (fst (submit_url h (sample_engine fk) 0
               (fst (submit_url h (sample_engine fk) 0 (one_user_db telegram_user)
                       ''https://youtu.be/abc12345678'' (Some 1)))
               ''https://youtu.be/abc12345678'' (Some 1))))
     = [(Some 1, Some 1), (Some 1, Some 1)]
   \<and> map ep_status
       (episodes
          (fst (submit_url h (sample_engine fk) 0
                 (fst (submit_url h (sample_engine fk) 0 (one_user_db telegram_user)
                         ''https://youtu.be/abc12345678'' (Some 1)))
                 ''https://youtu.be/abc12345678'' (Some 1)))) = [PENDING]
   \<and> snd (snd (submit_url h (sample_engine fk) 0 (one_user_db telegram_user)
                  ''https://youtu.be/abc12345678'' (Some 1)))
       = Inr (''Processing started'', 1, ''pending'')
   \<and> snd (snd (submit_url h (sample_engine fk) 0
                  (fst (submit_url h (sample_engine fk) 0 (one_user_db telegram_user)
                          ''https://youtu.be/abc12345678'' (Some 1)))
                  ''https://youtu.be/abc12345678'' (Some 1)))
       = Inr (''Already processing'', 1, ''pending'')"
  by (simp add: submit_url_def get_url_hash_def normalize_url_def split_def sample_defs
                add_queue_item_def new_queue_item_def fresh_id_def queue_pair_def
                get_user_def get_episode_def sample_engine_def Let_def)

section \<open>Claims about episode processing\<close>

text \<open>
  C2. Claim: for an episode in \<open>PROCESSING\<close> an invocation of the processor transcribes
  nothing, summarizes nothing and leaves the episode as it is. The task tests for
  \<open>COMPLETED\<close> only; \<open>reprocess_episode\<close> and \<open>submit_url\<close> do treat \<open>PROCESSING\<close> as in
  flight. The theorem evaluates the task on an episode in \<open>PROCESSING\<close>, the state a
  second job finds once a first job has committed that status: the task calls the
  transcription and the summarization, and the database is not what it was.
\<close>

theorem process_episode_task_runs_on_processing:
  "ep_status (sample_episode 1 PROCESSING None None) = PROCESSING
   \<and> fst (snd (process_episode_task sample_caps True 0
                  (one_episode_db (sample_episode 1 PROCESSING None None)) 1))
       = [ProcessYoutubeEpisode ''https://youtube.com/watch?v=abc12345678'',
          SummaryCompletion ''transcript'']
   \<and> fst (process_episode_task sample_caps True 0
             (one_episode_db (sample_episode 1 PROCESSING None None)) 1)
       \<noteq> one_episode_db (sample_episode 1 PROCESSING None None)"
  by (simp add: sample_defs process_defs Let_def)

text \<open>
  C6. For an episode that exists and is not completed, when the \<open>try\<close> block fails with
  exception \<open>ex\<close>: the episode is \<open>FAILED\<close> afterwards; for a \<open>NoCaptionsError\<close> the
  error message is the exception's text and the task returns, no retry scheduled; for
  every other exception the task schedules itself again after \<open>60 * 2 ^ r\<close> seconds while
  the retry counter \<open>r\<close> is below the maximum of 3, and from then on raises, the episode
  left \<open>FAILED\<close>.
\<close>

theorem process_episode_task_failure:
  assumes found: "get_episode db episode_id = Some e"
      and nc: "ep_status e \<noteq> COMPLETED"
      and fails: "process_body caps af db e = (db', log, Inl ex)"
  shows "\<exists>e'. get_episode (fst (process_episode_task caps af r db episode_id)) episode_id = Some e'
            \<and> ep_status e' = FAILED
            \<and> (case ex of
                  NoCaptionsError m \<Rightarrow>
                    ep_error_message e' = Some m
                    \<and> snd (snd (process_episode_task caps af r db episode_id))
                        = Returned (FailedNoCaptions m)
                | _ \<Rightarrow>
                    snd (snd (process_episode_task caps af r db episode_id))
                      = (if r < MAX_RETRIES then RetryScheduled (60 * 2 ^ r) ex else Raised ex))"
proof -
  obtain y where y: "get_episode db' episode_id = Some y"
    using process_body_failure_episode [OF found fails] by blast
  show ?thesis
    using found nc fails y
    by (cases ex)
       (simp_all add: process_episode_task_def handle_failure_def retry_def
                      mark_failed_message mark_failed_plain)
qed

theorem process_episode_task_failure_witness:
  "get_episode (one_episode_db (sample_episode 1 PENDING None None)) 1
     = Some (sample_episode 1 PENDING None None)
   \<and> ep_status (sample_episode 1 PENDING None None) \<noteq> COMPLETED
   \<and> (\<exists>e'. get_episode (fst (process_episode_task no_captions_caps True 0
                (one_episode_db (sample_episode 1 PENDING None None)) 1)) 1 = Some e'
          \<and> ep_status e' = FAILED \<and> ep_error_message e' = Some ''no captions''
          \<and> snd (snd (process_episode_task no_captions_caps True 0
                (one_episode_db (sample_episode 1 PENDING None None)) 1))
              = Returned (FailedNoCaptions ''no captions''))
   \<and> (\<exists>e'. get_episode (fst (process_episode_task network_down_caps True 2
                (one_episode_db (sample_episode 1 PENDING None None)) 1)) 1 = Some e'
          \<and> ep_status e' = FAILED
          \<and> snd (snd (process_episode_task network_down_caps True 2
                (one_episode_db (sample_episode 1 PENDING None None)) 1))
              = RetryScheduled 240 (Exception ''network down''))
   \<and> (\<exists>e'. get_episode (fst (process_episode_task network_down_caps True 3
                (one_episode_db (sample_episode 1 PENDING None None)) 1)) 1 = Some e'
          \<and> ep_status e' = FAILED
          \<and> snd (snd (process_episode_task network_down_caps True 3
                (one_episode_db (sample_episode 1 PENDING None None)) 1))
              = Raised (Exception ''network down''))"
proof -
  have g: "get_episode (one_episode_db (sample_episode 1 PENDING None None)) 1
             = Some (sample_episode 1 PENDING None None)"
    by (simp add: sample_defs get_episode_def)
  have nc: "ep_status (sample_episode 1 PENDING None None) \<noteq> COMPLETED"
    by (simp add: sample_episode_def)
  show ?thesis
    using g nc
      process_episode_task_failure [OF g nc body_no_captions, of 0]
      process_episode_task_failure [OF g nc body_network_down, of 2]
      process_episode_task_failure [OF g nc body_network_down, of 3]
    by (simp add: MAX_RETRIES_def)
qed

section \<open>Claims about digest dispatch\<close>

text \<open>
  C1. Claim: a successful dispatch removes from the queue only the items whose episode is
  completed with a summary; the other items stay. The task deletes every row it loaded
  for the user. The theorem evaluates it for a user with one completed and one pending
  episode queued, Telegram delivering: the message holds the completed episode only, and
  the queue is empty afterwards, the row of the pending episode gone with the other.
\<close>

theorem send_user_digest_task_drops_pending_item:
  "send_user_digest_task sample_caps 0 (mixed_queue_db telegram_user) 1
     = ((mixed_queue_db telegram_user)\<lparr>daily_digest_queue := []\<rparr>,
        [SendTelegram ''42'' (''# T'' @ [CHR 10, CHR 10] @ ''S'')],
        Returned (Delivered 1))"
  by (simp add: sample_defs digest_defs)

text \<open>
  C4, as amended. Claim: with exactly one qualifying item the delivered message is the
  episode's summary verbatim. For a user that exists: when the gathered summaries are
  exactly one pair, the task makes no completion call and every channel it tries is given
  the message \<open># <title>\<close>, an empty line, then the summary; when they are two or more,
  the first call of the task is the digest completion, on the entries
  \<open>**<title>**\<close>, empty line, summary, joined in queue order by a horizontal rule.
\<close>

theorem send_user_digest_task_message:
  assumes user: "get_user db user_id = Some user"
  shows "(gather_summaries db (user_queue db user_id) = [(title, summary)] \<longrightarrow>
            fst (snd (send_user_digest_task caps r db user_id))
              = (if truthy_str (usr_telegram_chat_id user)
                 then [SendTelegram (the (usr_telegram_chat_id user))
                         (''# '' @ py_str title @ [CHR 10, CHR 10] @ summary)]
                 else [])
                @ (if truthy_str (usr_email user)
                   then [SendEmail (the (usr_email user)) (digest_subject caps)
                           (markdown_to_html caps
                              (''# '' @ py_str title @ [CHR 10, CHR 10] @ summary))]
                   else []))
       \<and> (2 \<le> length (gather_summaries db (user_queue db user_id)) \<longrightarrow>
            take 1 (fst (snd (send_user_digest_task caps r db user_id)))
              = [DigestCompletion
                   (join DIGEST_SEPARATOR
                      (map digest_entry (gather_summaries db (user_queue db user_id))))])"
proof (intro conjI impI)
  assume one: "gather_summaries db (user_queue db user_id) = [(title, summary)]"
  have ne: "gather_summaries db (user_queue db user_id) \<noteq> []"
    using one by simp
  have syn: "synthesize_digest caps (gather_summaries db (user_queue db user_id))
               = ([], Inr (''# '' @ py_str title @ [CHR 10, CHR 10] @ summary))"
    using one by (simp add: synthesize_single)
  show "fst (snd (send_user_digest_task caps r db user_id))
          = (if truthy_str (usr_telegram_chat_id user)
             then [SendTelegram (the (usr_telegram_chat_id user))
                     (''# '' @ py_str title @ [CHR 10, CHR 10] @ summary)]
             else [])
            @ (if truthy_str (usr_email user)
               then [SendEmail (the (usr_email user)) (digest_subject caps)
                       (markdown_to_html caps
                          (''# '' @ py_str title @ [CHR 10, CHR 10] @ summary))]
               else [])"
    by (simp add: send_user_digest_task_unfold [OF user ne syn]
                  deliver_telegram_attempt deliver_email_attempt)
next
  assume many: "2 \<le> length (gather_summaries db (user_queue db user_id))"
  have ne: "gather_summaries db (user_queue db user_id) \<noteq> []"
    using many by auto
  show "take 1 (fst (snd (send_user_digest_task caps r db user_id)))
          = [DigestCompletion
               (join DIGEST_SEPARATOR
                  (map digest_entry (gather_summaries db (user_queue db user_id))))]"
    by (rule send_user_digest_task_log_head [OF user ne synthesize_many [OF many]])
qed

theorem send_user_digest_task_message_witness:
  "get_user (one_completed_db telegram_user) 1 = Some telegram_user
   \<and> gather_summaries (one_completed_db telegram_user)
        (user_queue (one_completed_db telegram_user) 1) = [(Some ''T'', ''S'')]
   \<and> fst (snd (send_user_digest_task sample_caps 0 (one_completed_db telegram_user) 1))
       = [SendTelegram ''42'' (''# T'' @ [CHR 10, CHR 10] @ ''S'')]
   \<and> get_user (two_completed_db telegram_user) 1 = Some telegram_user
   \<and> 2 \<le> length (gather_summaries (two_completed_db telegram_user)
                    (user_queue (two_completed_db telegram_user) 1))
   \<and> take 1 (fst (snd (send_user_digest_task sample_caps 0 (two_completed_db telegram_user) 1)))
       = [DigestCompletion
            (''**T**'' @ [CHR 10, CHR 10] @ ''S'' @ [CHR 10, CHR 10] @ ''---''
               @ [CHR 10, CHR 10] @ ''**T**'' @ [CHR 10, CHR 10] @ ''R'')]"
proof -
  have u1: "get_user (one_completed_db telegram_user) 1 = Some telegram_user"
    by (simp add: sample_defs get_user_def)
  have u2: "get_user (two_completed_db telegram_user) 1 = Some telegram_user"
    by (simp add: sample_defs get_user_def)
  have v: "usr_telegram_chat_id telegram_user = Some ''42''" "usr_email telegram_user = None"
    by (simp_all add: telegram_user_def)
  note a = send_user_digest_task_message [OF u1, of "Some ''T''" "''S''" sample_caps 0]
  note b = send_user_digest_task_message [OF u2, of "Some ''T''" "''S''" sample_caps 0]
  show ?thesis
    using u1 u2 a b
    by (simp add: v gather_one gather_two digest_entry_def DIGEST_SEPARATOR_def)
qed

text \<open>
  The claim as stated fails: the one message sent is not the summary \<open>S\<close> itself.
\<close>

theorem send_user_digest_task_single_counterexample:
  "gather_summaries (one_completed_db telegram_user)
     (user_queue (one_completed_db telegram_user) 1) = [(Some ''T'', ''S'')]
   \<and> fst (snd (send_user_digest_task sample_caps 0 (one_completed_db telegram_user) 1))
       = [SendTelegram ''42'' (''# T'' @ [CHR 10, CHR 10] @ ''S'')]
   \<and> SendTelegram ''42'' ''S''
       \<notin> set (fst (snd (send_user_digest_task sample_caps 0 (one_completed_db telegram_user) 1)))"
  by (simp add: sample_defs digest_defs)

text \<open>
  C7. For a user that exists, with at least one gathered summary and a digest produced:
  Telegram is tried exactly when a chat id is set and email exactly when an address is
  set, whatever the other attempt did; the user's queue is empty afterwards if and only
  if one of the attempts succeeded; with a success the task returns \<open>delivered\<close>; with
  none the database is as it was and the task asks to be retried after 300 seconds
  (raising for good once the retry counter has reached the maximum of 3).
\<close>

theorem send_user_digest_task_channels:
  assumes user: "get_user db user_id = Some user"
      and some: "gather_summaries db (user_queue db user_id) \<noteq> []"
      and synth: "synthesize_digest caps (gather_summaries db (user_queue db user_id))
                    = (log1, Inr digest)"
      and tg: "tg_ok = (truthy_str (usr_telegram_chat_id user)
                        \<and> \<not> isl (send_telegram caps (the (usr_telegram_chat_id user)) digest))"
      and em: "em_ok = (truthy_str (usr_email user)
                        \<and> \<not> isl (send_email caps (the (usr_email user)) (digest_subject caps)
                                    (markdown_to_html caps digest)))"
  shows "fst (snd (send_user_digest_task caps r db user_id))
           = log1
             @ (if truthy_str (usr_telegram_chat_id user)
                then [SendTelegram (the (usr_telegram_chat_id user)) digest] else [])
             @ (if truthy_str (usr_email user)
                then [SendEmail (the (usr_email user)) (digest_subject caps)
                        (markdown_to_html caps digest)]
                else [])
       \<and> (user_queue (fst (send_user_digest_task caps r db user_id)) user_id = []
            \<longleftrightarrow> tg_ok \<or> em_ok)
       \<and> (if tg_ok \<or> em_ok
          then snd (snd (send_user_digest_task caps r db user_id))
                 = Returned (Delivered (length (gather_summaries db (user_queue db user_id))))
          else fst (send_user_digest_task caps r db user_id) = db
               \<and> snd (snd (send_user_digest_task caps r db user_id))
                   = (if r < MAX_RETRIES
                      then RetryScheduled 300 (Exception ''No delivery channel succeeded'')
                      else Raised (Exception ''No delivery channel succeeded'')))"
proof -
  have q: "user_queue db user_id \<noteq> []"
    using some by (rule gather_summaries_nonempty)
  have d: "(fst (deliver_telegram caps user digest) \<or> fst (deliver_email caps user digest))
             = (tg_ok \<or> em_ok)"
    by (simp only: tg em deliver_telegram_ok deliver_email_ok)
  show ?thesis
    using q
    by (simp add: send_user_digest_task_unfold [OF user some synth] d user_queue_deleted
                  deliver_telegram_attempt deliver_email_attempt retry_def)
qed

theorem send_user_digest_task_channels_witness:
  "get_user (one_completed_db both_channels_user) 1 = Some both_channels_user
   \<and> gather_summaries (one_completed_db both_channels_user)
        (user_queue (one_completed_db both_channels_user) 1) \<noteq> []
   \<and> fst (snd (send_user_digest_task telegram_down_caps 0 (one_completed_db both_channels_user) 1))
       = [SendTelegram ''42'' (''# T'' @ [CHR 10, CHR 10] @ ''S''),
          SendEmail ''a@b.c'' ''Your Daily Knowledge Digest - November 04''
            (''# T'' @ [CHR 10, CHR 10] @ ''S'')]
   \<and> user_queue (fst (send_user_digest_task telegram_down_caps 0
                         (one_completed_db both_channels_user) 1)) 1 = []
   \<and> snd (snd (send_user_digest_task telegram_down_caps 0 (one_completed_db both_channels_user) 1))
       = Returned (Delivered 1)
   \<and> fst (snd (send_user_digest_task channels_down_caps 3 (one_completed_db both_channels_user) 1))
       = [SendTelegram ''42'' (''# T'' @ [CHR 10, CHR 10] @ ''S''),
          SendEmail ''a@b.c'' ''Your Daily Knowledge Digest - November 04''
            (''# T'' @ [CHR 10, CHR 10] @ ''S'')]
   \<and> fst (send_user_digest_task channels_down_caps 0 (one_completed_db both_channels_user) 1)
       = one_completed_db both_channels_user
   \<and> snd (snd (send_user_digest_task channels_down_caps 0 (one_completed_db both_channels_user) 1))
       = RetryScheduled 300 (Exception ''No delivery channel succeeded'')
   \<and> snd (snd (send_user_digest_task channels_down_caps 3 (one_completed_db both_channels_user) 1))
       = Raised (Exception ''No delivery channel succeeded'')"
proof -
  let ?db = "one_completed_db both_channels_user"
  let ?msg = "''# T'' @ [CHR 10, CHR 10] @ ''S''"
  have u: "get_user ?db 1 = Some both_channels_user"
    by (simp add: sample_defs get_user_def)
  have g: "gather_summaries ?db (user_queue ?db 1) \<noteq> []"
    by (simp add: gather_one)
  have s1: "synthesize_digest telegram_down_caps (gather_summaries ?db (user_queue ?db 1))
              = ([], Inr ?msg)"
    by (simp add: gather_one synthesize_digest_def)
  have s2: "synthesize_digest channels_down_caps (gather_summaries ?db (user_queue ?db 1))
              = ([], Inr ?msg)"
    by (simp add: gather_one synthesize_digest_def)
  have v: "usr_telegram_chat_id both_channels_user = Some ''42''"
          "usr_email both_channels_user = Some ''a@b.c''"
          "send_telegram telegram_down_caps = (\<lambda>c m. Inl (Exception ''telegram down''))"
          "send_email telegram_down_caps = (\<lambda>a s h. Inr True)"
          "send_telegram channels_down_caps = (\<lambda>c m. Inl (Exception ''telegram down''))"
          "send_email channels_down_caps = (\<lambda>a s h. Inl (Exception ''email down''))"
          "digest_subject telegram_down_caps = ''Your Daily Knowledge Digest - November 04''"
          "digest_subject channels_down_caps = ''Your Daily Knowledge Digest - November 04''"
          "markdown_to_html telegram_down_caps = (\<lambda>m. m)"
          "markdown_to_html channels_down_caps = (\<lambda>m. m)"
    by (simp_all add: both_channels_user_def telegram_down_caps_def channels_down_caps_def
                      sample_caps_def digest_subject_def)
  note a = send_user_digest_task_channels [OF u g s1 refl refl, of 0]
  note b = send_user_digest_task_channels [OF u g s2 refl refl, of 0]
  note c = send_user_digest_task_channels [OF u g s2 refl refl, of 3]
  show ?thesis
    using u g a b c by (simp add: v gather_one MAX_RETRIES_def)
qed

end
